theory Spec2Isabelle
  imports Main "HOL-Library.Multiset"
begin

section \<open>Data model of \<open>securedrop_client/logic.py\<close>\<close>

text \<open>
  The module defines two classes: \<open>APICallRunner\<close>, which runs one blocking API call and
  reports its outcome through Qt signals, and \<open>Controller\<close>, the coordinator that owns the
  authentication flag, the API handle, the local database session and the job queue.

  Everything the controller does to its collaborators (signals it emits, calls on the
  GUI, on the job queue, on the marker file) is recorded, in program order, in a trace
  of events. Calls to \<open>logger\<close> made by the controller are not recorded.
\<close>

type_synonym uuid = string

text \<open>An instant as \<open>arrow.now().format()\<close> writes it: whole seconds.\<close>

type_synonym timestamp = int

text \<open>The classes \<open>db.Reply\<close>, \<open>db.Message\<close> and \<open>db.File\<close>, used as values.\<close>

datatype object_type = Reply | Message | File

text \<open>
  The exceptions the module names or can raise itself. \<open>NoResultFound\<close> and
  \<open>MultipleResultsFound\<close> are what SQLAlchemy's \<open>Query.one()\<close> raises;
  \<open>AttributeError\<close> is what an attribute access on \<open>None\<close> raises; \<open>OSError\<close> is
  what \<open>open\<close> raises on a file it cannot open.
\<close>

datatype exception =
    RequestTimeoutError
  | DownloadChecksumMismatchException object_type uuid
  | SendReplyJobError uuid
  | SendReplyJobTimeoutError uuid
  | UpdateStarJobException
  | AttributeError
  | NoResultFound
  | MultipleResultsFound
  | OSError
  | OtherException string

text \<open>The handle of the remote API (\<open>sdclientapi.API\<close>), as far as the module reads it.\<close>

record API =
  api_username :: string
  api_passphrase :: string
  api_totp :: string
  token :: "string option"
  token_journalist_uuid :: "string option"
  journalist_first_name :: "string option"
  journalist_last_name :: "string option"

text \<open>
  \<open>sdclientapi.API(hostname, username, password, totp, proxy, default_request_timeout=60)\<close>:
  a fresh handle holds the credentials and no token yet.
\<close>

definition new_API :: "string \<Rightarrow> string \<Rightarrow> string \<Rightarrow> API" where
  "new_API username password totp =
     \<lparr>api_username = username, api_passphrase = password, api_totp = totp,
      token = None, token_journalist_uuid = None,
      journalist_first_name = None, journalist_last_name = None\<rparr>"

subsection \<open>The local store\<close>

datatype reply_send_status_codes = PENDING | FAILED | SENT

record source =
  src_uuid :: uuid
  src_id :: nat
  last_updated :: timestamp
  is_starred :: bool
  interaction_count :: nat

record draft_reply =
  draft_uuid :: uuid
  draft_timestamp :: timestamp
  draft_source_id :: nat
  draft_journalist_id :: "string option"
  draft_file_counter :: nat
  draft_content :: string
  send_status :: reply_send_status_codes

record message =
  msg_uuid :: uuid
  msg_content :: "string option"

record reply =
  rep_uuid :: uuid
  rep_content :: "string option"

record user =
  user_uuid :: "string option"
  user_username :: string
  user_firstname :: "string option"
  user_lastname :: "string option"

text \<open>
  The SQLAlchemy session, as the tables the module queries. \<open>reply_send_statuses\<close> are
  the rows of \<open>db.ReplySendStatus\<close>, each identified by its name.
\<close>

record db_session =
  sources :: "source list"
  drafts :: "draft_reply list"
  messages :: "message list"
  replies :: "reply list"
  reply_send_statuses :: "reply_send_status_codes list"
  users :: "user list"

subsection \<open>Jobs, slots and events\<close>

text \<open>
  The handlers a job's \<open>success_signal\<close> and \<open>failure_signal\<close> are connected to.
  \<open>Callback n\<close> is a callable supplied by the caller of \<open>update_star\<close>.
\<close>

datatype success_slot =
    On_sync_success
  | On_reply_download_success
  | On_message_download_success
  | On_file_download_success
  | On_update_star_success
  | On_delete_source_success
  | On_reply_success
  | Callback nat

datatype failure_slot =
    On_sync_failure
  | On_reply_download_failure
  | On_message_download_failure
  | On_file_download_failure
  | On_update_star_failure
  | On_delete_source_failure
  | On_reply_failure

text \<open>
  The job classes with the arguments that vary (\<open>data_dir\<close> and \<open>gpg\<close> are fixed
  attributes of the controller). \<open>SendReplyJob source_uuid reply_uuid message\<close>.
\<close>

datatype job_kind =
    MetadataSyncJob
  | ReplyDownloadJob uuid
  | MessageDownloadJob uuid
  | FileDownloadJob uuid
  | UpdateStarJob uuid bool
  | DeleteSourceJob uuid
  | SendReplyJob uuid uuid string

record job =
  job_kind :: job_kind
  success_signal :: "success_slot list"
  failure_signal :: "failure_slot list"

text \<open>
  \<open>Gui_update_error_status message duration retry\<close>: an argument the call site leaves
  out (the GUI's default applies) is \<open>None\<close>.
\<close>

datatype event =
    Emit_authentication_state bool
  | Emit_sync_events string
  | Emit_reply_failed uuid
  | Gui_hide_login
  | Gui_show_main_window "user option"
  | Gui_show_login_error string
  | Gui_update_error_status string "nat option" "bool option"
  | Gui_clear_error_status
  | Gui_show_sources "source list"
  | Gui_show_sync "timestamp option"
  | Gui_logout
  | Gui_update_activity_status string nat
  | Queue_login API
  | Queue_logout
  | Queue_enqueue job
  | Queue_resume_queues
  | Storage_update_missing_files
  | Session_add draft_reply
  | Session_commit
  | Write_sync_flag timestamp
  | Thread_start string

subsection \<open>The controller\<close>

datatype api_method = API_authenticate | API_logout

datatype api_callback =
    On_authenticate_success
  | On_authenticate_failure
  | On_logout_success
  | On_logout_failure

text \<open>An entry of \<open>api_threads\<close>: the runner's call and the two callbacks connected to it.\<close>

record api_thread =
  runner_api_call :: api_method
  success_callback :: api_callback
  failure_callback :: api_callback

text \<open>
  \<open>sync_flag\<close> is the content of the marker file \<open>home/sync_flag\<close> as \<open>last_sync\<close>
  reads it (\<open>None\<close>: missing or unreadable).
\<close>

record controller =
  is_authenticated :: bool
  api :: "API option"
  session :: db_session
  api_threads :: "string \<rightharpoonup> api_thread"
  sync_flag :: "timestamp option"
  trace :: "event list"

text \<open>
  A method that can raise returns the exception, if any, with the state at that moment.
\<close>

type_synonym outcome = "exception option \<times> controller"

definition emit :: "event \<Rightarrow> controller \<Rightarrow> controller" where
  "emit e s = s\<lparr>trace := trace s @ [e]\<rparr>"

text \<open>The events a call appended to the trace.\<close>

definition new_events :: "controller \<Rightarrow> controller \<Rightarrow> event list" where
  "new_events s s' = drop (length (trace s)) (trace s')"

section \<open>\<open>APICallRunner\<close>\<close>

datatype runner_event = Call_succeeded | Call_failed | Call_timed_out | Logger_error exception

text \<open>
  The callable returns a value or raises an \<open>Exception\<close>; \<open>result\<close> is \<open>None\<close> until
  the call has run.
\<close>

record ('a, 'v) api_call_runner =
  api_call :: "'a \<Rightarrow> exception + 'v"
  args :: 'a
  result :: "(exception + 'v) option"
  runner_events :: "runner_event list"

definition runner_call_api :: "('a, 'v) api_call_runner \<Rightarrow> ('a, 'v) api_call_runner" where
  "runner_call_api r =
     (case api_call r (args r) of
        Inr v \<Rightarrow>
          r\<lparr>result := Some (Inr v), runner_events := runner_events r @ [Call_succeeded]\<rparr>
      | Inl ex \<Rightarrow>
          r\<lparr>result := Some (Inl ex),
            runner_events := runner_events r
              @ (if ex = RequestTimeoutError then [Call_timed_out] else [])
              @ [Logger_error ex, Call_failed]\<rparr>)"

section \<open>\<open>Controller\<close>: session state\<close>

text \<open>The setter of the property \<open>is_authenticated\<close>.\<close>

definition set_is_authenticated :: "bool \<Rightarrow> controller \<Rightarrow> controller" where
  "set_is_authenticated b s =
     (if is_authenticated s \<noteq> b
      then (emit (Emit_authentication_state b) s)\<lparr>is_authenticated := b\<rparr>
      else s)"

text \<open>
  \<open>call_api\<close>: \<open>new_thread_id\<close> is the value \<open>uuid.uuid4()\<close> returned. The runner is
  registered and its thread started; the call itself runs later, off this thread.
\<close>

definition call_api ::
  "string \<Rightarrow> api_method \<Rightarrow> api_callback \<Rightarrow> api_callback \<Rightarrow> controller \<Rightarrow> controller" where
  "call_api new_thread_id api_call_func success_cb failure_cb s =
     emit (Thread_start new_thread_id)
       (s\<lparr>api_threads := (api_threads s)(new_thread_id \<mapsto>
            \<lparr>runner_api_call = api_call_func,
             success_callback = success_cb,
             failure_callback = failure_cb\<rparr>)\<rparr>)"

definition on_queue_paused :: "controller \<Rightarrow> controller" where
  "on_queue_paused s =
     (case api s of
        None \<Rightarrow> emit (Gui_update_error_status ''The SecureDrop server cannot be reached.'' None None) s
      | Some _ \<Rightarrow>
          emit (Gui_update_error_status ''The SecureDrop server cannot be reached.''
                  (Some 0) (Some True)) s)"

definition resume_queues :: "controller \<Rightarrow> controller" where
  "resume_queues s = emit Queue_resume_queues s"

definition enqueue :: "job \<Rightarrow> controller \<Rightarrow> controller" where
  "enqueue j s = emit (Queue_enqueue j) s"

text \<open>
  Modelled from the spec: \<open>storage.mark_all_pending_drafts_as_failed\<close> is not part of
  this module. The spec says it sweeps every draft whose send-status is PENDING to
  FAILED; the other drafts are left as they are.
\<close>

definition mark_all_pending_drafts_as_failed :: "db_session \<Rightarrow> db_session" where
  "mark_all_pending_drafts_as_failed db =
     db\<lparr>drafts := map (\<lambda>d. if send_status d = PENDING then d\<lparr>send_status := FAILED\<rparr> else d)
                       (drafts db)\<rparr>"

text \<open>
  Modelled from the spec: \<open>storage.update_and_get_user\<close> is not part of this module.
  The spec says it records or updates the local user identity from the profile fields
  the server provided.
\<close>

definition update_and_get_user ::
  "string option \<Rightarrow> string \<Rightarrow> string option \<Rightarrow> string option \<Rightarrow> db_session \<Rightarrow> user \<times> db_session" where
  "update_and_get_user uid username firstname lastname db =
     (let u = \<lparr>user_uuid = uid, user_username = username,
                user_firstname = firstname, user_lastname = lastname\<rparr>
      in (u, db\<lparr>users := u # filter (\<lambda>x. user_uuid x \<noteq> uid) (users db)\<rparr>))"

definition login :: "string \<Rightarrow> string \<Rightarrow> string \<Rightarrow> string \<Rightarrow> controller \<Rightarrow> controller" where
  "login new_thread_id username password totp s =
     (let s1 = s\<lparr>session := mark_all_pending_drafts_as_failed (session s)\<rparr>;
          s2 = s1\<lparr>api := Some (new_API username password totp)\<rparr>
      in call_api new_thread_id API_authenticate On_authenticate_success On_authenticate_failure s2)"

definition authenticated :: "controller \<Rightarrow> bool" where
  "authenticated s = (case api s of None \<Rightarrow> False | Some a \<Rightarrow> token a \<noteq> None)"

definition metadata_sync_job :: job where
  "metadata_sync_job =
     \<lparr>job_kind = MetadataSyncJob,
      success_signal = [On_sync_success],
      failure_signal = [On_sync_failure]\<rparr>"

definition sync_api :: "controller \<Rightarrow> controller" where
  "sync_api s =
     (if authenticated s
      then enqueue metadata_sync_job (emit (Emit_sync_events ''syncing'') s)
      else s)"

text \<open>
  \<open>on_authenticate_success\<close> reads \<open>self.api.username\<close> first: with no handle that read
  raises. Its argument \<open>result\<close> is never read and is left out.
\<close>

definition on_authenticate_success :: "controller \<Rightarrow> outcome" where
  "on_authenticate_success s =
     (case api s of
        None \<Rightarrow> (Some AttributeError, s)
      | Some a \<Rightarrow>
          (let s1 = emit Gui_hide_login s;
               (u, db) = update_and_get_user (token_journalist_uuid a) (api_username a)
                           (journalist_first_name a) (journalist_last_name a) (session s1);
               s2 = s1\<lparr>session := db\<rparr>;
               s3 = emit (Gui_show_main_window (Some u)) s2;
               s4 = emit (Queue_login a) s3;
               s5 = sync_api s4;
               s6 = set_is_authenticated True s5
           in (None, resume_queues s6)))"

definition on_authenticate_failure :: "exception \<Rightarrow> controller \<Rightarrow> controller" where
  "on_authenticate_failure res s =
     emit (Gui_show_login_error
             ''There was a problem signing in. Please verify your credentials and try again.'')
       (s\<lparr>api := None\<rparr>)"

definition last_sync :: "controller \<Rightarrow> timestamp option" where
  "last_sync s = sync_flag s"

definition update_sync :: "controller \<Rightarrow> controller" where
  "update_sync s = emit (Gui_show_sync (last_sync s)) s"

text \<open>
  \<open>list.sort(key=..., reverse=True)\<close>: CPython reverses the list, sorts it with its
  stable ascending sort, and reverses the result.
\<close>

definition sort_reverse :: "('a \<Rightarrow> 'k::linorder) \<Rightarrow> 'a list \<Rightarrow> 'a list" where
  "sort_reverse key xs = rev (sort_key key (rev xs))"

text \<open>
  \<open>storage.get_local_sources(session)\<close> returns the rows of the sources table. Every
  source has a \<open>last_updated\<close> instant, so the keys of the sort are comparable.
\<close>

definition update_sources :: "controller \<Rightarrow> controller" where
  "update_sources s =
     (let srcs = sources (session s);
          srcs' = (if srcs \<noteq> [] then sort_reverse last_updated srcs else srcs)
      in update_sync (emit (Gui_show_sources srcs') s))"

definition login_offline_mode :: "controller \<Rightarrow> controller" where
  "login_offline_mode s =
     (let s1 = emit Gui_hide_login s;
          s2 = emit (Gui_show_main_window None) s1;
          s3 = s2\<lparr>session := mark_all_pending_drafts_as_failed (session s2)\<rparr>;
          s4 = set_is_authenticated False s3
      in update_sources s4)"

definition on_action_requiring_login :: "controller \<Rightarrow> controller" where
  "on_action_requiring_login s =
     emit (Gui_update_error_status ''You must sign in to perform this action.'' None None) s"

text \<open>
  \<open>logout\<close> reads \<open>self.api.logout\<close> first: with no handle that read raises, before
  anything else is done.
\<close>

definition logout :: "string \<Rightarrow> controller \<Rightarrow> outcome" where
  "logout new_thread_id s =
     (case api s of
        None \<Rightarrow> (Some AttributeError, s)
      | Some _ \<Rightarrow>
          (let s1 = call_api new_thread_id API_logout On_logout_success On_logout_failure s;
               s2 = s1\<lparr>api := None\<rparr>;
               s3 = emit Queue_logout s2;
               s4 = s3\<lparr>session := mark_all_pending_drafts_as_failed (session s3)\<rparr>;
               s5 = emit Gui_logout s4
           in (None, set_is_authenticated False s5)))"

section \<open>\<open>Controller\<close>: synchronisation and downloads\<close>


text \<open>
  \<open>_submit_download_job(object_type, uuid)\<close>: the job class and the two handlers follow
  the object type.
\<close>

definition download_job :: "object_type \<Rightarrow> uuid \<Rightarrow> job" where
  "download_job ot u =
     (case ot of
        Reply \<Rightarrow>
          \<lparr>job_kind = ReplyDownloadJob u,
           success_signal = [On_reply_download_success],
           failure_signal = [On_reply_download_failure]\<rparr>
      | Message \<Rightarrow>
          \<lparr>job_kind = MessageDownloadJob u,
           success_signal = [On_message_download_success],
           failure_signal = [On_message_download_failure]\<rparr>
      | File \<Rightarrow>
          \<lparr>job_kind = FileDownloadJob u,
           success_signal = [On_file_download_success],
           failure_signal = [On_file_download_failure]\<rparr>)"

definition submit_download_job :: "object_type \<Rightarrow> uuid \<Rightarrow> controller \<Rightarrow> controller" where
  "submit_download_job ot u s = enqueue (download_job ot u) s"

text \<open>
  Modelled from the spec: \<open>storage.find_new_messages\<close> and \<open>storage.find_new_replies\<close>
  are not part of this module. The spec says they find every message or reply that
  exists in the local store but has no content yet.
\<close>

definition find_new_messages :: "db_session \<Rightarrow> message list" where
  "find_new_messages db = filter (\<lambda>m. msg_content m = None) (messages db)"

definition find_new_replies :: "db_session \<Rightarrow> reply list" where
  "find_new_replies db = filter (\<lambda>r. rep_content r = None) (replies db)"




definition on_sync_failure :: "exception \<Rightarrow> controller \<Rightarrow> controller" where
  "on_sync_failure res s =
     emit (Gui_update_error_status ''The SecureDrop server cannot be reached.''
             (Some 0) (Some True)) s"

definition on_message_download_failure :: "exception \<Rightarrow> controller \<Rightarrow> controller" where
  "on_message_download_failure ex s =
     (case ex of
        DownloadChecksumMismatchException ot u \<Rightarrow> submit_download_job ot u s
      | _ \<Rightarrow> s)"

definition on_reply_download_failure :: "exception \<Rightarrow> controller \<Rightarrow> controller" where
  "on_reply_download_failure ex s =
     (case ex of
        DownloadChecksumMismatchException ot u \<Rightarrow> submit_download_job ot u s
      | _ \<Rightarrow> s)"

definition on_file_download_failure :: "exception \<Rightarrow> controller \<Rightarrow> controller" where
  "on_file_download_failure ex s =
     (case ex of
        DownloadChecksumMismatchException ot u \<Rightarrow> submit_download_job ot u s
      | _ \<Rightarrow> emit (Gui_update_error_status ''The file download failed. Please try again.''
                    None None) s)"

section \<open>\<open>Controller\<close>: star, delete and reply\<close>

definition on_update_star_failure :: "exception \<Rightarrow> controller \<Rightarrow> controller" where
  "on_update_star_failure res s =
     emit (Gui_update_error_status ''Failed to update star.'' None None) s"

definition update_star :: "source \<Rightarrow> nat \<Rightarrow> controller \<Rightarrow> controller" where
  "update_star source_db_object callback s =
     (case api s of
        None \<Rightarrow> on_action_requiring_login s
      | Some _ \<Rightarrow>
          enqueue
            \<lparr>job_kind = UpdateStarJob (src_uuid source_db_object) (is_starred source_db_object),
             success_signal = [On_update_star_success, Callback callback],
             failure_signal = [On_update_star_failure]\<rparr> s)"

definition on_delete_source_failure :: "exception \<Rightarrow> controller \<Rightarrow> controller" where
  "on_delete_source_failure res s =
     emit (Gui_update_error_status ''Failed to delete source at server'' None None) s"

definition delete_source :: "source \<Rightarrow> controller \<Rightarrow> controller" where
  "delete_source src s =
     (case api s of
        None \<Rightarrow> on_action_requiring_login s
      | Some _ \<Rightarrow>
          enqueue
            \<lparr>job_kind = DeleteSourceJob (src_uuid src),
             success_signal = [On_delete_source_success],
             failure_signal = [On_delete_source_failure]\<rparr> s)"

text \<open>SQLAlchemy's \<open>Query.one()\<close>: exactly one row, or an exception.\<close>

definition query_one :: "'a list \<Rightarrow> exception + 'a" where
  "query_one rows =
     (case rows of
        [] \<Rightarrow> Inl NoResultFound
      | [x] \<Rightarrow> Inr x
      | _ \<Rightarrow> Inl MultipleResultsFound)"

text \<open>
  \<open>send_reply\<close>: \<open>now\<close> is the instant \<open>datetime.utcnow()\<close> returns. The two queries
  and the read of \<open>self.api.token_journalist_uuid\<close> come before the session is touched.
\<close>

definition send_reply :: "timestamp \<Rightarrow> uuid \<Rightarrow> uuid \<Rightarrow> string \<Rightarrow> controller \<Rightarrow> outcome" where
  "send_reply now source_uuid reply_uuid msg s =
     (case query_one (filter (\<lambda>x. src_uuid x = source_uuid) (sources (session s))) of
        Inl ex \<Rightarrow> (Some ex, s)
      | Inr src \<Rightarrow>
     (case query_one (filter (\<lambda>c. c = PENDING) (reply_send_statuses (session s))) of
        Inl ex \<Rightarrow> (Some ex, s)
      | Inr reply_status \<Rightarrow>
     (case api s of
        None \<Rightarrow> (Some AttributeError, s)
      | Some a \<Rightarrow>
          (let draft_reply =
                 \<lparr>draft_uuid = reply_uuid,
                  draft_timestamp = now,
                  draft_source_id = src_id src,
                  draft_journalist_id = token_journalist_uuid a,
                  draft_file_counter = interaction_count src,
                  draft_content = msg,
                  send_status = reply_status\<rparr>;
               s1 = emit (Session_add draft_reply)
                      (s\<lparr>session := (session s)\<lparr>drafts := drafts (session s) @ [draft_reply]\<rparr>\<rparr>);
               s2 = emit Session_commit s1
           in (None,
               enqueue
                 \<lparr>job_kind = SendReplyJob source_uuid reply_uuid msg,
                  success_signal = [On_reply_success],
                  failure_signal = [On_reply_failure]\<rparr> s2)))))"

text \<open>
  \<open>on_reply_failure\<close> reads \<open>exception.reply_uuid\<close>, which the two send-reply errors
  carry.
\<close>

definition on_reply_failure :: "exception \<Rightarrow> controller \<Rightarrow> outcome" where
  "on_reply_failure ex s =
     (case ex of
        SendReplyJobError u \<Rightarrow> (None, emit (Emit_reply_failed u) s)
      | SendReplyJobTimeoutError u \<Rightarrow> (None, emit (Emit_reply_failed u) s)
      | _ \<Rightarrow> (Some AttributeError, s))"

section \<open>Delivery of a job's failure signal\<close>

text \<open>
  When a job fails, the queue emits its \<open>failure_signal\<close> with the exception, and Qt
  calls the slots connected to it, in the order they were connected.
\<close>

definition call_failure_slot :: "failure_slot \<Rightarrow> exception \<Rightarrow> controller \<Rightarrow> outcome" where
  "call_failure_slot sl ex s =
     (case sl of
        On_sync_failure \<Rightarrow> (None, on_sync_failure ex s)
      | On_reply_download_failure \<Rightarrow> (None, on_reply_download_failure ex s)
      | On_message_download_failure \<Rightarrow> (None, on_message_download_failure ex s)
      | On_file_download_failure \<Rightarrow> (None, on_file_download_failure ex s)
      | On_update_star_failure \<Rightarrow> (None, on_update_star_failure ex s)
      | On_delete_source_failure \<Rightarrow> (None, on_delete_source_failure ex s)
      | On_reply_failure \<Rightarrow> on_reply_failure ex s)"

fun call_failure_slots :: "failure_slot list \<Rightarrow> exception \<Rightarrow> controller \<Rightarrow> outcome" where
  "call_failure_slots [] ex s = (None, s)"
| "call_failure_slots (sl # sls) ex s =
     (case call_failure_slot sl ex s of
        (Some x, s') \<Rightarrow> (Some x, s')
      | (None, s') \<Rightarrow> call_failure_slots sls ex s')"

definition emit_failure_signal :: "job \<Rightarrow> exception \<Rightarrow> controller \<Rightarrow> outcome" where
  "emit_failure_signal j ex s = call_failure_slots (failure_signal j) ex s"

text \<open>
  The job \<open>j\<close> fails \<open>n\<close> times in a row with the exception \<open>ex\<close>: each failure is
  delivered before the next one happens.
\<close>

fun fail_repeatedly :: "nat \<Rightarrow> job \<Rightarrow> exception \<Rightarrow> controller \<Rightarrow> outcome" where
  "fail_repeatedly 0 j ex s = (None, s)"
| "fail_repeatedly (Suc n) j ex s =
     (case emit_failure_signal j ex s of
        (Some x, s') \<Rightarrow> (Some x, s')
      | (None, s') \<Rightarrow> fail_repeatedly n j ex s')"

section \<open>Sequences of session operations\<close>

text \<open>
  \<open>Op_authenticated\<close> is the effect of a successful \<open>sdclientapi\<close> \<open>authenticate()\<close> on
  the handle the controller holds: the token and the journalist's profile are stored on
  it. The other operations are calls of the controller's methods.
\<close>

datatype op =
    Op_login string string string string
  | Op_authenticated string string "string option" "string option"
  | Op_on_authenticate_success
  | Op_on_authenticate_failure exception
  | Op_logout string
  | Op_login_offline_mode

definition api_authenticated ::
  "string \<Rightarrow> string \<Rightarrow> string option \<Rightarrow> string option \<Rightarrow> controller \<Rightarrow> controller" where
  "api_authenticated tok juuid first_name last_name s =
     s\<lparr>api := map_option
         (\<lambda>a. a\<lparr>token := Some tok, token_journalist_uuid := Some juuid,
                journalist_first_name := first_name, journalist_last_name := last_name\<rparr>)
         (api s)\<rparr>"

definition step :: "op \<Rightarrow> controller \<Rightarrow> outcome" where
  "step x s =
     (case x of
        Op_login tid username password totp \<Rightarrow> (None, login tid username password totp s)
      | Op_authenticated tok juuid first_name last_name \<Rightarrow>
          (None, api_authenticated tok juuid first_name last_name s)
      | Op_on_authenticate_success \<Rightarrow> on_authenticate_success s
      | Op_on_authenticate_failure ex \<Rightarrow> (None, on_authenticate_failure ex s)
      | Op_logout tid \<Rightarrow> logout tid s
      | Op_login_offline_mode \<Rightarrow> (None, login_offline_mode s))"

text \<open>A sequence of operations runs until one raises.\<close>

fun exec :: "op list \<Rightarrow> controller \<Rightarrow> outcome" where
  "exec [] s = (None, s)"
| "exec (x # xs) s =
     (case step x s of
        (Some ex, s') \<Rightarrow> (Some ex, s')
      | (None, s') \<Rightarrow> exec xs s')"

text \<open>The value of the authenticated flag after each operation of the sequence that ran.\<close>

fun flags :: "op list \<Rightarrow> controller \<Rightarrow> bool list" where
  "flags [] s = []"
| "flags (x # xs) s =
     (case step x s of
        (Some ex, s') \<Rightarrow> [is_authenticated s']
      | (None, s') \<Rightarrow> is_authenticated s' # flags xs s')"

text \<open>The values \<open>authentication_state\<close> emitted, in order.\<close>

fun auth_signals :: "event list \<Rightarrow> bool list" where
  "auth_signals [] = []"
| "auth_signals (Emit_authentication_state b # es) = b # auth_signals es"
| "auth_signals (e # es) = auth_signals es"

text \<open>The actual changes in a history of flag values that starts from \<open>b\<close>.\<close>

fun flips :: "bool \<Rightarrow> bool list \<Rightarrow> bool list" where
  "flips b [] = []"
| "flips b (x # xs) = (if x \<noteq> b then x # flips x xs else flips x xs)"

text \<open>\<open>precedes a b xs\<close>: \<open>a\<close> occurs in \<open>xs\<close>, and \<open>b\<close> occurs after its first occurrence.\<close>

definition precedes :: "'a \<Rightarrow> 'a \<Rightarrow> 'a list \<Rightarrow> bool" where
  "precedes a b xs = (a \<in> set xs \<and> b \<in> set (tl (dropWhile (\<lambda>x. x \<noteq> a) xs)))"

section \<open>Reading the trace\<close>

text \<open>The signals a call of the runner emitted and the errors it logged.\<close>

definition new_runner_events ::
  "('a, 'v) api_call_runner \<Rightarrow> ('a, 'v) api_call_runner \<Rightarrow> runner_event list" where
  "new_runner_events r r' = drop (length (runner_events r)) (runner_events r')"

text \<open>
  The events \<open>download_new_messages\<close> and \<open>download_new_replies\<close> append, one after
  the other, in the state \<open>s\<close>.
\<close>

definition sync_downloads :: "controller \<Rightarrow> event list" where
  "sync_downloads s =
     (if find_new_messages (session s) \<noteq> []
      then [Gui_update_activity_status ''Downloading new messages'' 5000] else [])
     @ map (\<lambda>m. Queue_enqueue (download_job Message (msg_uuid m))) (find_new_messages (session s))
     @ map (\<lambda>r. Queue_enqueue (download_job Reply (rep_uuid r))) (find_new_replies (session s))"


section \<open>Example states\<close>

text \<open>The state \<open>Controller.__init__\<close> leaves, for a given store and marker file.\<close>

definition init_controller :: "db_session \<Rightarrow> timestamp option \<Rightarrow> controller" where
  "init_controller db flag =
     \<lparr>is_authenticated = False, api = None, session = db, api_threads = Map.empty,
      sync_flag = flag, trace = []\<rparr>"

text \<open>
  A store with three sources (two of them updated at the same instant), one draft
  still PENDING, and one message and one reply not downloaded yet.
\<close>

definition example_db :: db_session where
  "example_db =
     \<lparr>sources =
        [\<lparr>src_uuid = ''s1'', src_id = 1, last_updated = 10, is_starred = False, interaction_count = 2\<rparr>,
         \<lparr>src_uuid = ''s2'', src_id = 2, last_updated = 30, is_starred = True, interaction_count = 5\<rparr>,
         \<lparr>src_uuid = ''s3'', src_id = 3, last_updated = 10, is_starred = False, interaction_count = 0\<rparr>],
      drafts =
        [\<lparr>draft_uuid = ''d1'', draft_timestamp = 5, draft_source_id = 1,
          draft_journalist_id = Some ''j1'', draft_file_counter = 2, draft_content = ''hi'',
          send_status = PENDING\<rparr>],
      messages = [\<lparr>msg_uuid = ''m1'', msg_content = None\<rparr>],
      replies = [\<lparr>rep_uuid = ''r1'', rep_content = None\<rparr>],
      reply_send_statuses = [PENDING, FAILED, SENT],
      users = []\<rparr>"

definition example_ops :: "op list" where
  "example_ops =
     [Op_login ''t1'' ''journalist'' ''pw'' ''123456'',
      Op_authenticated ''tok'' ''j1'' None None,
      Op_on_authenticate_success,
      Op_on_authenticate_success,
      Op_logout ''t2'',
      Op_login_offline_mode,
      Op_logout ''t3'']"

text \<open>A handle on which \<open>authenticate()\<close> has stored a token.\<close>

definition example_api :: API where
  "example_api =
     \<lparr>api_username = ''journalist'', api_passphrase = ''pw'', api_totp = ''123456'',
      token = Some ''tok'', token_journalist_uuid = Some ''j1'',
      journalist_first_name = Some ''Jo'', journalist_last_name = None\<rparr>"

text \<open>After \<open>login\<close>, with the token stored, before \<open>on_authenticate_success\<close> runs.\<close>

definition authenticating_controller :: controller where
  "authenticating_controller = (init_controller example_db None)\<lparr>api := Some example_api\<rparr>"

definition example_source :: source where
  "example_source =
     \<lparr>src_uuid = ''s2'', src_id = 2, last_updated = 30, is_starred = True, interaction_count = 5\<rparr>"

text \<open>
  A runner whose callable times out on 0, raises another error on 1 and returns
  otherwise.
\<close>

definition example_runner :: "nat \<Rightarrow> (nat, nat) api_call_runner" where
  "example_runner n =
     \<lparr>api_call = (\<lambda>x. if x = 0 then Inl RequestTimeoutError
                       else if x = 1 then Inl (OtherException ''boom'') else Inr (x + 40)),
      args = n, result = None, runner_events = []\<rparr>"

section \<open>What each helper does to the fields\<close>

lemma auth_signals_append: "auth_signals (xs @ ys) = auth_signals xs @ auth_signals ys"
  by (induction xs rule: auth_signals.induct) simp_all

lemma new_events_append: "trace s' = trace s @ es \<Longrightarrow> new_events s s' = es"
  by (simp add: new_events_def)

lemma emit_fields:
  "trace (emit e s) = trace s @ [e]"
  "is_authenticated (emit e s) = is_authenticated s"
  "api (emit e s) = api s"
  "session (emit e s) = session s"
  "sync_flag (emit e s) = sync_flag s"
  "api_threads (emit e s) = api_threads s"
  by (simp_all add: emit_def)

lemma call_api_fields:
  "trace (call_api t f a b s) = trace s @ [Thread_start t]"
  "is_authenticated (call_api t f a b s) = is_authenticated s"
  "api (call_api t f a b s) = api s"
  "session (call_api t f a b s) = session s"
  "sync_flag (call_api t f a b s) = sync_flag s"
  by (simp_all add: call_api_def emit_fields)

lemma set_is_authenticated_fields:
  "trace (set_is_authenticated b s) =
     trace s @ (if is_authenticated s = b then [] else [Emit_authentication_state b])"
  "is_authenticated (set_is_authenticated b s) = b"
  "api (set_is_authenticated b s) = api s"
  "session (set_is_authenticated b s) = session s"
  "sync_flag (set_is_authenticated b s) = sync_flag s"
  by (auto simp: set_is_authenticated_def emit_fields)

lemma sync_api_fields:
  "trace (sync_api s) =
     trace s @ (if authenticated s
                then [Emit_sync_events ''syncing'', Queue_enqueue metadata_sync_job] else [])"
  "is_authenticated (sync_api s) = is_authenticated s"
  "api (sync_api s) = api s"
  "session (sync_api s) = session s"
  "sync_flag (sync_api s) = sync_flag s"
  by (simp_all add: sync_api_def enqueue_def emit_fields)

lemma resume_queues_fields:
  "trace (resume_queues s) = trace s @ [Queue_resume_queues]"
  "is_authenticated (resume_queues s) = is_authenticated s"
  "api (resume_queues s) = api s"
  "session (resume_queues s) = session s"
  "sync_flag (resume_queues s) = sync_flag s"
  by (simp_all add: resume_queues_def emit_fields)

lemma update_sources_fields:
  "trace (update_sources s) =
     trace s @ [Gui_show_sources (if sources (session s) \<noteq> []
                                  then sort_reverse last_updated (sources (session s))
                                  else sources (session s)),
                Gui_show_sync (sync_flag s)]"
  "is_authenticated (update_sources s) = is_authenticated s"
  "api (update_sources s) = api s"
  "session (update_sources s) = session s"
  "sync_flag (update_sources s) = sync_flag s"
  by (simp_all add: update_sources_def update_sync_def last_sync_def Let_def emit_fields)

lemma submit_download_job_fields:
  "trace (submit_download_job ot u s) = trace s @ [Queue_enqueue (download_job ot u)]"
  "is_authenticated (submit_download_job ot u s) = is_authenticated s"
  "api (submit_download_job ot u s) = api s"
  "session (submit_download_job ot u s) = session s"
  "sync_flag (submit_download_job ot u s) = sync_flag s"
  by (simp_all add: submit_download_job_def enqueue_def emit_fields)




section \<open>Lemmas on the session operations\<close>

lemma step_signals:
  "auth_signals (trace (snd (step x s))) =
     auth_signals (trace s) @
       (if is_authenticated (snd (step x s)) \<noteq> is_authenticated s
        then [is_authenticated (snd (step x s))] else [])"
proof (cases x)
  case (Op_login t u p o')
  then show ?thesis
    by (simp add: step_def login_def Let_def call_api_fields auth_signals_append)
next
  case (Op_authenticated t j f l)
  then show ?thesis by (simp add: step_def api_authenticated_def)
next
  case Op_on_authenticate_success
  then show ?thesis
    by (cases "api s")
       (auto simp: step_def on_authenticate_success_def Let_def split_beta
          resume_queues_fields set_is_authenticated_fields sync_api_fields emit_fields
          auth_signals_append)
next
  case (Op_on_authenticate_failure e)
  then show ?thesis
    by (simp add: step_def on_authenticate_failure_def emit_fields auth_signals_append)
next
  case (Op_logout t)
  then show ?thesis
    by (cases "api s")
       (auto simp: step_def logout_def Let_def set_is_authenticated_fields emit_fields
          call_api_fields auth_signals_append)
next
  case Op_login_offline_mode
  then show ?thesis
    by (auto simp: step_def login_offline_mode_def Let_def update_sources_fields
          set_is_authenticated_fields emit_fields auth_signals_append)
qed

lemma exec_signals:
  "auth_signals (trace (snd (exec ops s))) =
     auth_signals (trace s) @ flips (is_authenticated s) (flags ops s)"
proof (induction ops arbitrary: s)
  case Nil
  show ?case by simp
next
  case (Cons x xs)
  obtain r s' where st: "step x s = (r, s')" by (cases "step x s")
  have sig: "auth_signals (trace s') =
     auth_signals (trace s) @
       (if is_authenticated s' \<noteq> is_authenticated s then [is_authenticated s'] else [])"
    using step_signals [of x s] st by simp
  show ?case
  proof (cases r)
    case None
    with st sig Cons.IH [of s'] show ?thesis by auto
  next
    case (Some e)
    with st sig show ?thesis by auto
  qed
qed

lemma on_authenticate_success_events:
  assumes "api s = Some a" and "token a \<noteq> None" and "\<not> is_authenticated s"
  shows "fst (on_authenticate_success s) = None"
    and "new_events s (snd (on_authenticate_success s)) =
        [Gui_hide_login,
         Gui_show_main_window
           (Some \<lparr>user_uuid = token_journalist_uuid a, user_username = api_username a,
                  user_firstname = journalist_first_name a,
                  user_lastname = journalist_last_name a\<rparr>),
         Queue_login a,
         Emit_sync_events ''syncing'',
         Queue_enqueue metadata_sync_job,
         Emit_authentication_state True,
         Queue_resume_queues]"
    and "is_authenticated (snd (on_authenticate_success s))"
  using assms
  by (simp_all add: on_authenticate_success_def Let_def update_and_get_user_def
        new_events_def resume_queues_fields set_is_authenticated_fields sync_api_fields
        emit_fields authenticated_def)

lemma sweep_no_pending:
  "PENDING \<notin> send_status ` set (drafts (mark_all_pending_drafts_as_failed db))"
  by (auto simp: mark_all_pending_drafts_as_failed_def)

lemma sweep_drafts:
  "drafts (mark_all_pending_drafts_as_failed db) =
     map (\<lambda>d. if send_status d = PENDING then d\<lparr>send_status := FAILED\<rparr> else d) (drafts db)"
  by (simp add: mark_all_pending_drafts_as_failed_def)

lemma login_session:
  "session (login t u p otp s) = mark_all_pending_drafts_as_failed (session s)"
  by (simp add: login_def Let_def call_api_fields)

lemma login_offline_mode_session:
  "session (login_offline_mode s) = mark_all_pending_drafts_as_failed (session s)"
  by (simp add: login_offline_mode_def Let_def update_sources_fields
        set_is_authenticated_fields emit_fields)

lemma logout_session:
  "api s \<noteq> None \<Longrightarrow>
     fst (logout t s) = None
     \<and> session (snd (logout t s)) = mark_all_pending_drafts_as_failed (session s)"
  by (auto simp: logout_def Let_def set_is_authenticated_fields emit_fields call_api_fields)

section \<open>Lemmas on synchronisation, downloads and replies\<close>




lemma write_not_in_downloads: "Write_sync_flag now \<notin> set (sync_downloads s)"
  by (auto simp: sync_downloads_def)

lemma clear_not_in_downloads: "Gui_clear_error_status \<notin> set (sync_downloads s)"
  by (auto simp: sync_downloads_def)





lemma emit_failure_signal_download:
  "emit_failure_signal (download_job ot u) (DownloadChecksumMismatchException ot u) s =
     (None, submit_download_job ot u s)"
  by (cases ot)
     (simp_all add: emit_failure_signal_def download_job_def call_failure_slot_def
        on_reply_download_failure_def on_message_download_failure_def
        on_file_download_failure_def)

lemma fail_repeatedly_download:
  "fst (fail_repeatedly n (download_job ot u) (DownloadChecksumMismatchException ot u) s) = None
   \<and> trace (snd (fail_repeatedly n (download_job ot u)
                   (DownloadChecksumMismatchException ot u) s)) =
       trace s @ replicate n (Queue_enqueue (download_job ot u))"
proof (induction n arbitrary: s)
  case 0
  show ?case by simp
next
  case (Suc n)
  show ?case
    using Suc.IH [of "submit_download_job ot u s"]
    by (simp add: emit_failure_signal_download submit_download_job_fields
          replicate_append_same [symmetric] del: replicate_Suc replicate_append_same)
       (simp add: replicate_append_same)
qed

lemma sort_reverse_sorted:
  "sorted_wrt (\<lambda>a b. key a \<ge> key b) (sort_reverse key xs)"
proof -
  have "sorted (map key (sort_key key (rev xs)))" by (rule sorted_sort_key)
  then have "sorted_wrt (\<lambda>a b. key a \<le> key b) (sort_key key (rev xs))"
    by (simp add: sorted_map)
  then show ?thesis
    by (simp add: sort_reverse_def sorted_wrt_rev)
qed

lemma sort_reverse_mset: "mset (sort_reverse key xs) = mset xs"
  by (simp add: sort_reverse_def)

lemma sort_reverse_stable:
  "filter (\<lambda>x. key x = k) (sort_reverse key xs) = filter (\<lambda>x. key x = k) xs"
proof -
  have "filter (\<lambda>x. key x = k) (sort_key key (rev xs)) = filter (\<lambda>x. key x = k) (rev xs)"
    by (rule sort_key_stable)
  then show ?thesis
    by (simp add: sort_reverse_def rev_filter [symmetric])
qed

lemma query_one_Inr: "query_one rows = Inr x \<Longrightarrow> rows = [x]"
  by (auto simp: query_one_def split: list.splits)

lemma query_one_pending:
  "query_one (filter (\<lambda>c. c = PENDING) rows) = Inr st \<Longrightarrow> st = PENDING"
proof -
  assume "query_one (filter (\<lambda>c. c = PENDING) rows) = Inr st"
  then have "filter (\<lambda>c. c = PENDING) rows = [st]" by (rule query_one_Inr)
  then have "st \<in> set (filter (\<lambda>c. c = PENDING) rows)" by simp
  then show "st = PENDING" by simp
qed

section \<open>Evaluating the examples\<close>

lemmas eval_defs =
  init_controller_def example_db_def step_def login_def logout_def login_offline_mode_def
  on_authenticate_success_def on_authenticate_failure_def api_authenticated_def
  call_api_def emit_def set_is_authenticated_def sync_api_def authenticated_def
  enqueue_def resume_queues_def update_sources_def update_sync_def last_sync_def
  mark_all_pending_drafts_as_failed_def update_and_get_user_def new_API_def
  metadata_sync_job_def sort_reverse_def Let_def

lemma example_flags:
  "flags example_ops (init_controller example_db None) =
     [False, False, True, True, False, False, False]"
  by (simp add: example_ops_def eval_defs)

lemma example_fst: "fst (exec example_ops (init_controller example_db None)) = Some AttributeError"
  by (simp add: example_ops_def eval_defs)

section \<open>The authentication signal\<close>

text \<open>
  C1. Over every sequence of login, authenticate-outcome, logout and offline-mode
  operations, from every state, the values emitted on \<open>authentication_state\<close> are exactly
  the actual changes of the authenticated flag, in order, each emitted once with the new
  value; and the setter emits nothing when it is given the value the flag already has.
\<close>

theorem authentication_state_once_per_change:
  "auth_signals (trace (snd (exec ops s))) =
     auth_signals (trace s) @ flips (is_authenticated s) (flags ops s)
   \<and> new_events s (set_is_authenticated b s) =
       (if is_authenticated s = b then [] else [Emit_authentication_state b])
   \<and> is_authenticated (set_is_authenticated b s) = b"
  by (simp add: exec_signals new_events_def set_is_authenticated_fields)

theorem authentication_state_once_per_change_witness:
  "auth_signals (trace (snd (exec example_ops (init_controller example_db None)))) = [True, False]
   \<and> fst (exec example_ops (init_controller example_db None)) = Some AttributeError"
proof -
  have start: "trace (init_controller example_db None) = []"
    "is_authenticated (init_controller example_db None) = False"
    by (simp_all add: init_controller_def)
  show ?thesis
    using authentication_state_once_per_change [of example_ops "init_controller example_db None" True]
    by (simp add: example_flags example_fst start)
qed

section \<open>Failure of a metadata sync\<close>

text \<open>
  C2. The docstring of \<open>on_sync_failure\<close> says the queues are resumed so that syncing is
  retried. The handler shows the persistent, retryable "cannot be reached" status and
  does nothing else: \<open>resume_queues\<close> is not called, for any exception and any state.
\<close>

theorem on_sync_failure_does_not_resume:
  "new_events s (on_sync_failure ex s) =
     [Gui_update_error_status ''The SecureDrop server cannot be reached.'' (Some 0) (Some True)]
   \<and> Queue_resume_queues \<notin> set (new_events s (on_sync_failure ex s))"
  by (simp add: new_events_def on_sync_failure_def emit_fields)

section \<open>Checksum mismatch of a download\<close>

text \<open>
  C3. When a message, reply or file download fails with a checksum mismatch, the handler
  enqueues exactly one download job and nothing else, and that job is the one
  \<open>_submit_download_job\<close> builds for the object type and uuid the exception carries. A
  download job that fails \<open>n\<close> times in a row with the mismatch of its own object type and
  uuid is resubmitted exactly \<open>n\<close> times, every time as the same job. A file download
  that fails with any other exception shows "The file download failed. Please try again."
\<close>

theorem checksum_mismatch_resubmits_once:
  "new_events s (on_message_download_failure (DownloadChecksumMismatchException ot u) s) =
     [Queue_enqueue (download_job ot u)]
   \<and> new_events s (on_reply_download_failure (DownloadChecksumMismatchException ot u) s) =
     [Queue_enqueue (download_job ot u)]
   \<and> new_events s (on_file_download_failure (DownloadChecksumMismatchException ot u) s) =
     [Queue_enqueue (download_job ot u)]
   \<and> job_kind (download_job ot u) =
       (case ot of Reply \<Rightarrow> ReplyDownloadJob u
                 | Message \<Rightarrow> MessageDownloadJob u
                 | File \<Rightarrow> FileDownloadJob u)
   \<and> fst (fail_repeatedly n (download_job ot u) (DownloadChecksumMismatchException ot u) s) = None
   \<and> new_events s
        (snd (fail_repeatedly n (download_job ot u) (DownloadChecksumMismatchException ot u) s)) =
       replicate n (Queue_enqueue (download_job ot u))
   \<and> ((\<forall>ot' u'. ex \<noteq> DownloadChecksumMismatchException ot' u') \<longrightarrow>
        new_events s (on_file_download_failure ex s) =
          [Gui_update_error_status ''The file download failed. Please try again.'' None None])"
proof -
  have a: "new_events s (on_message_download_failure (DownloadChecksumMismatchException ot u) s) =
     [Queue_enqueue (download_job ot u)]"
    by (simp add: on_message_download_failure_def new_events_append submit_download_job_fields)
  have b: "new_events s (on_reply_download_failure (DownloadChecksumMismatchException ot u) s) =
     [Queue_enqueue (download_job ot u)]"
    by (simp add: on_reply_download_failure_def new_events_append submit_download_job_fields)
  have c: "new_events s (on_file_download_failure (DownloadChecksumMismatchException ot u) s) =
     [Queue_enqueue (download_job ot u)]"
    by (simp add: on_file_download_failure_def new_events_append submit_download_job_fields)
  have d: "job_kind (download_job ot u) =
       (case ot of Reply \<Rightarrow> ReplyDownloadJob u
                 | Message \<Rightarrow> MessageDownloadJob u
                 | File \<Rightarrow> FileDownloadJob u)"
    by (cases ot) (simp_all add: download_job_def)
  have e: "new_events s
        (snd (fail_repeatedly n (download_job ot u) (DownloadChecksumMismatchException ot u) s)) =
       replicate n (Queue_enqueue (download_job ot u))"
    using fail_repeatedly_download [of n ot u s] by (simp add: new_events_append)
  have f: "(\<forall>ot' u'. ex \<noteq> DownloadChecksumMismatchException ot' u') \<longrightarrow>
        new_events s (on_file_download_failure ex s) =
          [Gui_update_error_status ''The file download failed. Please try again.'' None None]"
    by (cases ex) (simp_all add: on_file_download_failure_def new_events_append emit_fields)
  show ?thesis
    using a b c d e f fail_repeatedly_download [of n ot u s] by simp
qed

theorem checksum_mismatch_resubmits_once_witness:
  "new_events (init_controller example_db None)
     (snd (fail_repeatedly 3 (download_job File ''F1'')
             (DownloadChecksumMismatchException File ''F1'') (init_controller example_db None))) =
     [Queue_enqueue (download_job File ''F1''), Queue_enqueue (download_job File ''F1''),
      Queue_enqueue (download_job File ''F1'')]
   \<and> job_kind (download_job File ''F1'') = FileDownloadJob ''F1''
   \<and> new_events (init_controller example_db None)
       (on_file_download_failure (OtherException ''disk full'') (init_controller example_db None)) =
       [Gui_update_error_status ''The file download failed. Please try again.'' None None]"
proof -
  have h: "\<forall>ot' u'. OtherException ''disk full'' \<noteq> DownloadChecksumMismatchException ot' u'"
    by simp
  have r: "replicate 3 (Queue_enqueue (download_job File ''F1'')) =
     [Queue_enqueue (download_job File ''F1''), Queue_enqueue (download_job File ''F1''),
      Queue_enqueue (download_job File ''F1'')]"
    by (simp add: numeral_3_eq_3)
  show ?thesis
    using checksum_mismatch_resubmits_once
      [of "init_controller example_db None" File "''F1''" 3 "OtherException ''disk full''"] h r
    by simp
qed

section \<open>The sweep of pending drafts\<close>

text \<open>
  C4, as stated, fails for \<open>logout\<close>: called with no API handle, \<open>logout\<close> raises on
  \<open>self.api.logout\<close> before it reaches the sweep, and a PENDING draft stays PENDING.
\<close>

theorem logout_without_handle_counterexample:
  "fst (logout ''t1'' (init_controller example_db None)) = Some AttributeError
   \<and> map send_status (drafts (session (init_controller example_db None))) = [PENDING]
   \<and> map send_status (drafts (session (snd (logout ''t1'' (init_controller example_db None))))) =
       [PENDING]"
  by (simp add: logout_def init_controller_def example_db_def)

text \<open>
  C4, amended. After every call of \<open>login\<close> and of \<open>login_offline_mode\<close>, and after every
  call of \<open>logout\<close> made while an API handle is present, every draft that was PENDING is
  FAILED, the other drafts are unchanged, and no draft is PENDING. A call of \<open>logout\<close>
  made with no API handle raises \<open>AttributeError\<close> and leaves the state as it was.
\<close>

theorem pending_drafts_swept:
  "drafts (session (login t u p otp s)) =
     map (\<lambda>d. if send_status d = PENDING then d\<lparr>send_status := FAILED\<rparr> else d)
       (drafts (session s))
   \<and> PENDING \<notin> send_status ` set (drafts (session (login t u p otp s)))
   \<and> drafts (session (login_offline_mode s)) =
     map (\<lambda>d. if send_status d = PENDING then d\<lparr>send_status := FAILED\<rparr> else d)
       (drafts (session s))
   \<and> PENDING \<notin> send_status ` set (drafts (session (login_offline_mode s)))
   \<and> (api s \<noteq> None \<longrightarrow>
        fst (logout t s) = None
        \<and> drafts (session (snd (logout t s))) =
            map (\<lambda>d. if send_status d = PENDING then d\<lparr>send_status := FAILED\<rparr> else d)
              (drafts (session s))
        \<and> PENDING \<notin> send_status ` set (drafts (session (snd (logout t s)))))
   \<and> (api s = None \<longrightarrow> logout t s = (Some AttributeError, s))"
proof -
  have f: "api s = None \<longrightarrow> logout t s = (Some AttributeError, s)"
    by (simp add: logout_def)
  have a: "drafts (session (login t u p otp s)) =
     map (\<lambda>d. if send_status d = PENDING then d\<lparr>send_status := FAILED\<rparr> else d)
       (drafts (session s))"
    unfolding login_session by (rule sweep_drafts)
  have b: "PENDING \<notin> send_status ` set (drafts (session (login t u p otp s)))"
    unfolding login_session by (rule sweep_no_pending)
  have c: "drafts (session (login_offline_mode s)) =
     map (\<lambda>d. if send_status d = PENDING then d\<lparr>send_status := FAILED\<rparr> else d)
       (drafts (session s))"
    unfolding login_offline_mode_session by (rule sweep_drafts)
  have d: "PENDING \<notin> send_status ` set (drafts (session (login_offline_mode s)))"
    unfolding login_offline_mode_session by (rule sweep_no_pending)
  have e: "api s \<noteq> None \<longrightarrow>
        fst (logout t s) = None
        \<and> drafts (session (snd (logout t s))) =
            map (\<lambda>d. if send_status d = PENDING then d\<lparr>send_status := FAILED\<rparr> else d)
              (drafts (session s))
        \<and> PENDING \<notin> send_status ` set (drafts (session (snd (logout t s))))"
  proof
    assume "api s \<noteq> None"
    then have l: "fst (logout t s) = None"
      "session (snd (logout t s)) = mark_all_pending_drafts_as_failed (session s)"
      using logout_session [of s t] by simp_all
    show "fst (logout t s) = None
        \<and> drafts (session (snd (logout t s))) =
            map (\<lambda>d. if send_status d = PENDING then d\<lparr>send_status := FAILED\<rparr> else d)
              (drafts (session s))
        \<and> PENDING \<notin> send_status ` set (drafts (session (snd (logout t s))))"
      unfolding l using sweep_drafts [of "session s"] sweep_no_pending [of "session s"]
      by blast
  qed
  from a b c d e f show ?thesis by blast
qed

theorem pending_drafts_swept_witness:
  "map send_status (drafts (session authenticating_controller)) = [PENDING]
   \<and> fst (logout ''t2'' authenticating_controller) = None
   \<and> map send_status (drafts (session (snd (logout ''t2'' authenticating_controller)))) = [FAILED]
   \<and> map send_status
       (drafts (session (login ''t1'' ''journalist'' ''pw'' ''123456''
                          (init_controller example_db None)))) = [FAILED]
   \<and> map send_status (drafts (session (login_offline_mode (init_controller example_db None)))) =
       [FAILED]"
proof -
  have h: "api authenticating_controller \<noteq> None"
    by (simp add: authenticating_controller_def)
  have d: "drafts (session authenticating_controller) = drafts example_db"
    "drafts (session (init_controller example_db None)) = drafts example_db"
    by (simp_all add: authenticating_controller_def init_controller_def)
  have e: "map send_status (drafts example_db) = [PENDING]"
    "map send_status
       (map (\<lambda>d. if send_status d = PENDING then d\<lparr>send_status := FAILED\<rparr> else d)
          (drafts example_db)) = [FAILED]"
    by (simp_all add: example_db_def)
  show ?thesis
    using pending_drafts_swept [of "''t2''" "''u''" "''p''" "''o''" authenticating_controller]
      pending_drafts_swept [of "''t1''" "''journalist''" "''pw''" "''123456''"
        "init_controller example_db None"] h d e
    by simp
qed

section \<open>The outcome of an API call\<close>

text \<open>
  C5. \<open>APICallRunner.call_api\<close>: when the callable returns, the value is stored in
  \<open>result\<close> and only \<open>call_succeeded\<close> is emitted; when it raises, the exception is
  logged, stored in \<open>result\<close>, and \<open>call_failed\<close> is emitted, preceded by
  \<open>call_timed_out\<close> when the exception is a \<open>RequestTimeoutError\<close>. In every case exactly
  one of \<open>call_succeeded\<close> and \<open>call_failed\<close> is emitted.
\<close>

theorem call_api_reports_outcome:
  "(api_call r (args r) = Inr v \<longrightarrow>
      result (runner_call_api r) = Some (Inr v)
      \<and> new_runner_events r (runner_call_api r) = [Call_succeeded])
   \<and> (api_call r (args r) = Inl ex \<longrightarrow>
      result (runner_call_api r) = Some (Inl ex)
      \<and> new_runner_events r (runner_call_api r) =
          (if ex = RequestTimeoutError then [Call_timed_out] else [])
          @ [Logger_error ex, Call_failed])
   \<and> count_list (new_runner_events r (runner_call_api r)) Call_succeeded
       + count_list (new_runner_events r (runner_call_api r)) Call_failed = 1"
  by (cases "api_call r (args r)")
     (auto simp: runner_call_api_def new_runner_events_def)

theorem call_api_reports_outcome_witness:
  "result (runner_call_api (example_runner 2)) = Some (Inr 42)
   \<and> new_runner_events (example_runner 2) (runner_call_api (example_runner 2)) = [Call_succeeded]
   \<and> result (runner_call_api (example_runner 0)) = Some (Inl RequestTimeoutError)
   \<and> new_runner_events (example_runner 0) (runner_call_api (example_runner 0)) =
        [Call_timed_out, Logger_error RequestTimeoutError, Call_failed]
   \<and> new_runner_events (example_runner 1) (runner_call_api (example_runner 1)) =
        [Logger_error (OtherException ''boom''), Call_failed]"
proof -
  have a: "api_call (example_runner 2) (args (example_runner 2)) = Inr 42"
    by (simp add: example_runner_def)
  have b: "api_call (example_runner 0) (args (example_runner 0)) = Inl RequestTimeoutError"
    by (simp add: example_runner_def)
  have c: "api_call (example_runner 1) (args (example_runner 1)) = Inl (OtherException ''boom'')"
    by (simp add: example_runner_def)
  show ?thesis
    using call_api_reports_outcome [of "example_runner 2" 42 RequestTimeoutError]
      call_api_reports_outcome [of "example_runner 0" 0 RequestTimeoutError]
      call_api_reports_outcome [of "example_runner 1" 0 "OtherException ''boom''"]
      a b c
    by simp
qed

section \<open>Success of a metadata sync\<close>




section \<open>Success of authentication\<close>

text \<open>
  C7, as stated, fails: \<open>on_authenticate_success\<close> calls \<open>sync_api\<close> before it sets
  \<open>is_authenticated\<close>, so the notification does not precede the enqueuing of the sync job.
\<close>

theorem notification_precedes_sync_counterexample:
  "Emit_authentication_state True
     \<in> set (new_events authenticating_controller
               (snd (on_authenticate_success authenticating_controller)))
   \<and> Queue_enqueue metadata_sync_job
     \<in> set (new_events authenticating_controller
               (snd (on_authenticate_success authenticating_controller)))
   \<and> \<not> precedes (Emit_authentication_state True) (Queue_enqueue metadata_sync_job)
         (new_events authenticating_controller
            (snd (on_authenticate_success authenticating_controller)))"
  by (simp add: precedes_def new_events_def authenticating_controller_def example_api_def
        eval_defs)

text \<open>
  C7, amended. When \<open>on_authenticate_success\<close> runs with the flag unset and the token
  stored on the handle, the MetadataSync job is enqueued once, and
  \<open>authentication_state(True)\<close> is emitted once, after the job was enqueued and before
  the queues are resumed.
\<close>

theorem sync_enqueued_before_authentication_signal:
  "api s = Some a \<longrightarrow> token a \<noteq> None \<longrightarrow> \<not> is_authenticated s \<longrightarrow>
     fst (on_authenticate_success s) = None
     \<and> new_events s (snd (on_authenticate_success s)) =
        [Gui_hide_login,
         Gui_show_main_window
           (Some \<lparr>user_uuid = token_journalist_uuid a, user_username = api_username a,
                  user_firstname = journalist_first_name a,
                  user_lastname = journalist_last_name a\<rparr>),
         Queue_login a,
         Emit_sync_events ''syncing'',
         Queue_enqueue metadata_sync_job,
         Emit_authentication_state True,
         Queue_resume_queues]
     \<and> count_list (new_events s (snd (on_authenticate_success s)))
          (Emit_authentication_state True) = 1
     \<and> count_list (new_events s (snd (on_authenticate_success s)))
          (Queue_enqueue metadata_sync_job) = 1
     \<and> precedes (Queue_enqueue metadata_sync_job) (Emit_authentication_state True)
          (new_events s (snd (on_authenticate_success s)))
     \<and> is_authenticated (snd (on_authenticate_success s))"
proof (intro impI)
  assume h: "api s = Some a" "token a \<noteq> None" "\<not> is_authenticated s"
  note ev = on_authenticate_success_events [OF h]
  show "fst (on_authenticate_success s) = None
     \<and> new_events s (snd (on_authenticate_success s)) =
        [Gui_hide_login,
         Gui_show_main_window
           (Some \<lparr>user_uuid = token_journalist_uuid a, user_username = api_username a,
                  user_firstname = journalist_first_name a,
                  user_lastname = journalist_last_name a\<rparr>),
         Queue_login a,
         Emit_sync_events ''syncing'',
         Queue_enqueue metadata_sync_job,
         Emit_authentication_state True,
         Queue_resume_queues]
     \<and> count_list (new_events s (snd (on_authenticate_success s)))
          (Emit_authentication_state True) = 1
     \<and> count_list (new_events s (snd (on_authenticate_success s)))
          (Queue_enqueue metadata_sync_job) = 1
     \<and> precedes (Queue_enqueue metadata_sync_job) (Emit_authentication_state True)
          (new_events s (snd (on_authenticate_success s)))
     \<and> is_authenticated (snd (on_authenticate_success s))"
    by (simp add: ev precedes_def)
qed

theorem sync_enqueued_before_authentication_signal_witness:
  "new_events authenticating_controller (snd (on_authenticate_success authenticating_controller)) =
     [Gui_hide_login,
      Gui_show_main_window
        (Some \<lparr>user_uuid = Some ''j1'', user_username = ''journalist'',
               user_firstname = Some ''Jo'', user_lastname = None\<rparr>),
      Queue_login example_api,
      Emit_sync_events ''syncing'',
      Queue_enqueue metadata_sync_job,
      Emit_authentication_state True,
      Queue_resume_queues]
   \<and> precedes (Queue_enqueue metadata_sync_job) (Emit_authentication_state True)
        (new_events authenticating_controller
           (snd (on_authenticate_success authenticating_controller)))"
proof -
  have h: "api authenticating_controller = Some example_api" "token example_api \<noteq> None"
    "\<not> is_authenticated authenticating_controller"
    by (simp_all add: authenticating_controller_def example_api_def init_controller_def)
  have f: "token_journalist_uuid example_api = Some ''j1''"
    "api_username example_api = ''journalist''"
    "journalist_first_name example_api = Some ''Jo''"
    "journalist_last_name example_api = None"
    by (simp_all add: example_api_def)
  show ?thesis
    using sync_enqueued_before_authentication_signal [of authenticating_controller example_api] h f
    by (simp add: precedes_def)
qed

section \<open>The order of the source list\<close>

text \<open>
  C8. \<open>update_sources\<close> shows the sources of the local store, all of them and no other,
  in descending order of \<open>last_updated\<close>; sources with the same \<open>last_updated\<close> keep the
  order they had in the store.
\<close>

theorem update_sources_sorted_descending_stable:
  "\<exists>ys. new_events s (update_sources s) = [Gui_show_sources ys, Gui_show_sync (last_sync s)]
      \<and> sorted_wrt (\<lambda>a b. last_updated a \<ge> last_updated b) ys
      \<and> mset ys = mset (sources (session s))
      \<and> (\<forall>t. filter (\<lambda>x. last_updated x = t) ys =
               filter (\<lambda>x. last_updated x = t) (sources (session s)))"
proof (cases "sources (session s) = []")
  case True
  then show ?thesis
    by (simp add: new_events_append update_sources_fields last_sync_def)
next
  case False
  then show ?thesis
    by (simp add: new_events_append update_sources_fields last_sync_def
          sort_reverse_sorted sort_reverse_mset sort_reverse_stable)
qed

theorem update_sources_sorted_descending_stable_witness:
  "new_events (init_controller example_db None) (update_sources (init_controller example_db None)) =
     [Gui_show_sources
        [\<lparr>src_uuid = ''s2'', src_id = 2, last_updated = 30, is_starred = True, interaction_count = 5\<rparr>,
         \<lparr>src_uuid = ''s1'', src_id = 1, last_updated = 10, is_starred = False, interaction_count = 2\<rparr>,
         \<lparr>src_uuid = ''s3'', src_id = 3, last_updated = 10, is_starred = False, interaction_count = 0\<rparr>],
      Gui_show_sync None]"
proof -
  have ev: "new_events (init_controller example_db None)
      (update_sources (init_controller example_db None)) =
     [Gui_show_sources
        [\<lparr>src_uuid = ''s2'', src_id = 2, last_updated = 30, is_starred = True, interaction_count = 5\<rparr>,
         \<lparr>src_uuid = ''s1'', src_id = 1, last_updated = 10, is_starred = False, interaction_count = 2\<rparr>,
         \<lparr>src_uuid = ''s3'', src_id = 3, last_updated = 10, is_starred = False, interaction_count = 0\<rparr>],
      Gui_show_sync None]"
    by (simp add: new_events_def update_sources_fields init_controller_def example_db_def
          sort_reverse_def)
  from update_sources_sorted_descending_stable [of "init_controller example_db None"]
  obtain ys where "new_events (init_controller example_db None)
      (update_sources (init_controller example_db None)) =
      [Gui_show_sources ys, Gui_show_sync (last_sync (init_controller example_db None))]"
    by blast
  with ev show ?thesis by simp
qed

section \<open>Star and delete\<close>

text \<open>
  C9. With no API handle, \<open>update_star\<close> and \<open>delete_source\<close> each show "You must sign
  in to perform this action." and enqueue nothing; with a handle, each enqueues exactly
  one job, an \<open>UpdateStarJob\<close> respectively a \<open>DeleteSourceJob\<close> for the source, and does
  nothing else.
\<close>

theorem star_and_delete_need_api_handle:
  "(api s = None \<longrightarrow>
      new_events s (update_star src cb s) =
        [Gui_update_error_status ''You must sign in to perform this action.'' None None]
      \<and> new_events s (delete_source src s) =
        [Gui_update_error_status ''You must sign in to perform this action.'' None None])
   \<and> (api s \<noteq> None \<longrightarrow>
      new_events s (update_star src cb s) =
        [Queue_enqueue
           \<lparr>job_kind = UpdateStarJob (src_uuid src) (is_starred src),
            success_signal = [On_update_star_success, Callback cb],
            failure_signal = [On_update_star_failure]\<rparr>]
      \<and> new_events s (delete_source src s) =
        [Queue_enqueue
           \<lparr>job_kind = DeleteSourceJob (src_uuid src),
            success_signal = [On_delete_source_success],
            failure_signal = [On_delete_source_failure]\<rparr>])"
  by (cases "api s")
     (simp_all add: update_star_def delete_source_def on_action_requiring_login_def
        enqueue_def new_events_append emit_fields)

theorem star_and_delete_need_api_handle_witness:
  "new_events (init_controller example_db None)
     (update_star example_source 7 (init_controller example_db None)) =
     [Gui_update_error_status ''You must sign in to perform this action.'' None None]
   \<and> new_events (init_controller example_db None)
     (delete_source example_source (init_controller example_db None)) =
     [Gui_update_error_status ''You must sign in to perform this action.'' None None]
   \<and> new_events authenticating_controller (update_star example_source 7 authenticating_controller) =
     [Queue_enqueue
        \<lparr>job_kind = UpdateStarJob ''s2'' True,
         success_signal = [On_update_star_success, Callback 7],
         failure_signal = [On_update_star_failure]\<rparr>]
   \<and> new_events authenticating_controller (delete_source example_source authenticating_controller) =
     [Queue_enqueue
        \<lparr>job_kind = DeleteSourceJob ''s2'',
         success_signal = [On_delete_source_success],
         failure_signal = [On_delete_source_failure]\<rparr>]"
proof -
  have a: "api (init_controller example_db None) = None"
    by (simp add: init_controller_def)
  have b: "api authenticating_controller \<noteq> None"
    by (simp add: authenticating_controller_def)
  have c: "src_uuid example_source = ''s2''" "is_starred example_source = True"
    by (simp_all add: example_source_def)
  show ?thesis
    using star_and_delete_need_api_handle [of "init_controller example_db None" example_source 7]
      star_and_delete_need_api_handle [of authenticating_controller example_source 7] a b c
    by simp
qed

section \<open>Sending a reply\<close>

text \<open>
  C10. With no API handle, \<open>send_reply\<close> raises and leaves the state as it was, so no
  "must sign in" status is shown; when the source and the PENDING status row are found,
  the exception is the \<open>AttributeError\<close> of reading \<open>self.api.token_journalist_uuid\<close>.
  With a handle, the PENDING draft is added and committed before the \<open>SendReplyJob\<close> is
  enqueued.
\<close>

theorem send_reply_needs_api_handle:
  "(api s = None \<longrightarrow>
      fst (send_reply now su ru m s) \<noteq> None \<and> snd (send_reply now su ru m s) = s)
   \<and> (api s = None \<longrightarrow>
      query_one (filter (\<lambda>x. src_uuid x = su) (sources (session s))) = Inr src \<longrightarrow>
      query_one (filter (\<lambda>c. c = PENDING) (reply_send_statuses (session s))) = Inr st \<longrightarrow>
      fst (send_reply now su ru m s) = Some AttributeError)
   \<and> (api s = Some a \<longrightarrow>
      query_one (filter (\<lambda>x. src_uuid x = su) (sources (session s))) = Inr src \<longrightarrow>
      query_one (filter (\<lambda>c. c = PENDING) (reply_send_statuses (session s))) = Inr st \<longrightarrow>
      fst (send_reply now su ru m s) = None
      \<and> new_events s (snd (send_reply now su ru m s)) =
          [Session_add
             \<lparr>draft_uuid = ru, draft_timestamp = now, draft_source_id = src_id src,
              draft_journalist_id = token_journalist_uuid a,
              draft_file_counter = interaction_count src, draft_content = m,
              send_status = PENDING\<rparr>,
           Session_commit,
           Queue_enqueue
             \<lparr>job_kind = SendReplyJob su ru m,
              success_signal = [On_reply_success],
              failure_signal = [On_reply_failure]\<rparr>]
      \<and> drafts (session (snd (send_reply now su ru m s))) =
          drafts (session s) @
          [\<lparr>draft_uuid = ru, draft_timestamp = now, draft_source_id = src_id src,
            draft_journalist_id = token_journalist_uuid a,
            draft_file_counter = interaction_count src, draft_content = m,
            send_status = PENDING\<rparr>])"
proof -
  have a: "api s = None \<longrightarrow>
      fst (send_reply now su ru m s) \<noteq> None \<and> snd (send_reply now su ru m s) = s"
    by (simp add: send_reply_def split: sum.splits)
  have b: "api s = None \<longrightarrow>
      query_one (filter (\<lambda>x. src_uuid x = su) (sources (session s))) = Inr src \<longrightarrow>
      query_one (filter (\<lambda>c. c = PENDING) (reply_send_statuses (session s))) = Inr st \<longrightarrow>
      fst (send_reply now su ru m s) = Some AttributeError"
    by (simp add: send_reply_def)
  have c: "api s = Some a \<longrightarrow>
      query_one (filter (\<lambda>x. src_uuid x = su) (sources (session s))) = Inr src \<longrightarrow>
      query_one (filter (\<lambda>c. c = PENDING) (reply_send_statuses (session s))) = Inr st \<longrightarrow>
      fst (send_reply now su ru m s) = None
      \<and> new_events s (snd (send_reply now su ru m s)) =
          [Session_add
             \<lparr>draft_uuid = ru, draft_timestamp = now, draft_source_id = src_id src,
              draft_journalist_id = token_journalist_uuid a,
              draft_file_counter = interaction_count src, draft_content = m,
              send_status = PENDING\<rparr>,
           Session_commit,
           Queue_enqueue
             \<lparr>job_kind = SendReplyJob su ru m,
              success_signal = [On_reply_success],
              failure_signal = [On_reply_failure]\<rparr>]
      \<and> drafts (session (snd (send_reply now su ru m s))) =
          drafts (session s) @
          [\<lparr>draft_uuid = ru, draft_timestamp = now, draft_source_id = src_id src,
            draft_journalist_id = token_journalist_uuid a,
            draft_file_counter = interaction_count src, draft_content = m,
            send_status = PENDING\<rparr>]"
    using query_one_pending [of "reply_send_statuses (session s)" st]
    by (auto simp: send_reply_def Let_def enqueue_def emit_fields new_events_append)
  show ?thesis using a b c by blast
qed

theorem send_reply_needs_api_handle_witness:
  "fst (send_reply 99 ''s1'' ''R1'' ''hello'' (init_controller example_db None)) = Some AttributeError
   \<and> snd (send_reply 99 ''s1'' ''R1'' ''hello'' (init_controller example_db None)) =
       init_controller example_db None
   \<and> fst (send_reply 99 ''s1'' ''R1'' ''hello'' authenticating_controller) = None
   \<and> new_events authenticating_controller
       (snd (send_reply 99 ''s1'' ''R1'' ''hello'' authenticating_controller)) =
       [Session_add
          \<lparr>draft_uuid = ''R1'', draft_timestamp = 99, draft_source_id = 1,
           draft_journalist_id = Some ''j1'', draft_file_counter = 2, draft_content = ''hello'',
           send_status = PENDING\<rparr>,
        Session_commit,
        Queue_enqueue
          \<lparr>job_kind = SendReplyJob ''s1'' ''R1'' ''hello'',
           success_signal = [On_reply_success],
           failure_signal = [On_reply_failure]\<rparr>]"
proof -
  let ?src = "\<lparr>src_uuid = ''s1'', src_id = 1, last_updated = 10, is_starred = False,
               interaction_count = 2\<rparr>"
  have a: "api (init_controller example_db None) = None"
    by (simp add: init_controller_def)
  have b: "api authenticating_controller = Some example_api"
    by (simp add: authenticating_controller_def)
  have c: "query_one (filter (\<lambda>x. src_uuid x = ''s1'')
             (sources (session (init_controller example_db None)))) = Inr ?src"
    "query_one (filter (\<lambda>c. c = PENDING)
             (reply_send_statuses (session (init_controller example_db None)))) = Inr PENDING"
    by (simp_all add: init_controller_def example_db_def query_one_def)
  have d: "query_one (filter (\<lambda>x. src_uuid x = ''s1'')
             (sources (session authenticating_controller))) = Inr ?src"
    "query_one (filter (\<lambda>c. c = PENDING)
             (reply_send_statuses (session authenticating_controller))) = Inr PENDING"
    by (simp_all add: authenticating_controller_def init_controller_def example_db_def query_one_def)
  have e: "token_journalist_uuid example_api = Some ''j1''"
    by (simp add: example_api_def)
  show ?thesis
    using send_reply_needs_api_handle
        [of "init_controller example_db None" 99 "''s1''" "''R1''" "''hello''" ?src PENDING example_api]
      send_reply_needs_api_handle
        [of authenticating_controller 99 "''s1''" "''R1''" "''hello''" ?src PENDING example_api]
      a b c d e
    by simp
qed

end
